theory Spec2Isabelle
  imports Complex_Main "HOL-Library.Sublist" "HOL-Library.Multiset"
begin

section \<open>BudgeTRAX backend: the budget service\<close>

text \<open>
  A shallow embedding of \<^verbatim>\<open>BudgetService\<close> (the service class that works on the
  \<^verbatim>\<open>supabaseAdmin\<close> client) and of the tables of \<^verbatim>\<open>database/schema.sql\<close> it reads
  and writes.

  Numbers. The TypeScript \<^verbatim>\<open>number\<close> fields (\<^verbatim>\<open>amount\<close>, \<^verbatim>\<open>income\<close>,
  \<^verbatim>\<open>expected_amount\<close>) are the store's \<^verbatim>\<open>DECIMAL(12,2)\<close> columns; they are modelled as
  exact rationals, so \<^verbatim>\<open>Number(x)\<close> is the identity and \<^verbatim>\<open>+\<close>, \<^verbatim>\<open>-\<close>, \<^verbatim>\<open>*\<close>, \<^verbatim>\<open>/\<close> are
  exact. The rounding of IEEE doubles and the values \<^verbatim>\<open>NaN\<close> and \<^verbatim>\<open>Infinity\<close> are not
  part of the model.

  Strings are lists of 8-bit characters, read as ASCII text.
\<close>

subsection \<open>Data model (\<^verbatim>\<open>src/types/index.ts\<close>, \<^verbatim>\<open>database/schema.sql\<close>)\<close>

record Category =
  cat_id :: string
  cat_name :: string
  color :: string
  icon :: string
  is_default :: bool
  cat_user_id :: "string option"
  cat_created_at :: string

record CategoryExpense =
  exp_category_id :: string
  exp_category_name :: string
  expected_amount :: rat

record MonthlyGoal =
  goal_id :: string
  goal_user_id :: string
  goal_month :: string
  income :: rat
  expenses :: "CategoryExpense list"
  goal_created_at :: string
  goal_updated_at :: string

record Transaction =
  tx_id :: string
  tx_user_id :: string
  category_id :: string
  category_name :: string
  amount :: rat
  description :: string
  date :: string
  month :: string
  tx_created_at :: string
  tx_updated_at :: string

subsection \<open>The dashboard aggregation (\<^verbatim>\<open>getDashboardSummary\<close>)\<close>

text \<open>
  \<^verbatim>\<open>x || 0\<close> on an optional number: \<^verbatim>\<open>undefined\<close> and \<^verbatim>\<open>0\<close> are falsy and give the
  right operand, every other number gives itself.
\<close>

fun or_zero :: "rat option \<Rightarrow> rat" where
  "or_zero None = 0"
| "or_zero (Some v) = (if v = 0 then 0 else v)"

text \<open>\<^verbatim>\<open>const totalIncome = monthlyGoal?.income || 0\<close>\<close>

definition totalIncome_of :: "MonthlyGoal option \<Rightarrow> rat" where
  "totalIncome_of monthlyGoal = or_zero (map_option income monthlyGoal)"

text \<open>\<^verbatim>\<open>transactions.reduce((sum, trans) => sum + Number(trans.amount), 0)\<close>\<close>

definition totalExpenses_of :: "Transaction list \<Rightarrow> rat" where
  "totalExpenses_of txs = foldl (\<lambda>sum trans. sum + amount trans) 0 txs"

text \<open>
  \<^verbatim>\<open>monthlyGoal?.expenses?.reduce((sum, exp) => sum + Number(exp.expected_amount), 0) || 0\<close>
\<close>

definition totalExpectedExpenses :: "MonthlyGoal option \<Rightarrow> rat" where
  "totalExpectedExpenses monthlyGoal =
     or_zero (map_option
       (\<lambda>g. foldl (\<lambda>sum exp. sum + expected_amount exp) 0 (expenses g)) monthlyGoal)"

text \<open>
  \<^verbatim>\<open>totalExpectedExpenses > 0 ? Math.min((totalExpenses / totalExpectedExpenses) * 100, 100) : 0\<close>
\<close>

definition monthlyProgress_of :: "rat \<Rightarrow> rat \<Rightarrow> rat" where
  "monthlyProgress_of totExpenses totExpected =
     (if totExpected > 0 then min ((totExpenses / totExpected) * 100) 100 else 0)"

subsubsection \<open>The accumulator object of \<^verbatim>\<open>categoryTotals\<close>\<close>

text \<open>
  \<^verbatim>\<open>categoryTotals\<close> starts as the object literal \<^verbatim>\<open>{}\<close> and is used as a dictionary from
  category names to numbers. It is modelled by its own properties, in the order of their
  creation. Its prototype is \<^verbatim>\<open>Object.prototype\<close>, so reading a name that is no own
  property gives \<^verbatim>\<open>undefined\<close> only when \<^verbatim>\<open>Object.prototype\<close> has no member of that name;
  for the names below it gives a function or, for \<^verbatim>\<open>__proto__\<close>, the prototype object.
  A value of the object is a number or a string; of a string the model keeps only that it
  is one (the strings that arise here start with \<^verbatim>\<open>function\<close> or \<^verbatim>\<open>[object Object]\<close> and are
  not numeric).
\<close>

datatype js_value = Num rat | Text

datatype js_lookup = Undefined | Own js_value | Inherited

type_synonym js_record = "(string \<times> js_value) list"

definition object_prototype_names :: "string list" where
  "object_prototype_names =
     [''constructor'', ''hasOwnProperty'', ''isPrototypeOf'', ''propertyIsEnumerable'',
      ''toLocaleString'', ''toString'', ''valueOf'', ''__proto__'', ''__defineGetter__'',
      ''__defineSetter__'', ''__lookupGetter__'', ''__lookupSetter__'']"

definition inherited :: "string \<Rightarrow> bool" where
  "inherited k = (k \<in> set object_prototype_names)"

text \<open>\<^verbatim>\<open>obj[k]\<close>\<close>

definition get_prop :: "js_record \<Rightarrow> string \<Rightarrow> js_lookup" where
  "get_prop obj k =
     (case map_of obj k of
        Some v \<Rightarrow> Own v
      | None \<Rightarrow> if inherited k then Inherited else Undefined)"

text \<open>
  \<^verbatim>\<open>obj[k] = v\<close> for a number or a string \<open>v\<close>: an existing property keeps its place and
  takes the new value, a new property is created after all the others. The name
  \<^verbatim>\<open>__proto__\<close> is the accessor of \<^verbatim>\<open>Object.prototype\<close>, whose setter ignores a value that
  is neither an object nor \<^verbatim>\<open>null\<close>: nothing is stored.
\<close>

definition set_prop :: "js_record \<Rightarrow> string \<Rightarrow> js_value \<Rightarrow> js_record" where
  "set_prop obj k v =
     (if k = ''__proto__'' then obj
      else if k \<in> set (map fst obj)
      then map (\<lambda>(k', v'). if k' = k then (k', v) else (k', v')) obj
      else obj @ [(k, v)])"

text \<open>
  \<^verbatim>\<open>(x || 0) + n\<close> for a number \<open>n\<close>: \<^verbatim>\<open>undefined\<close> and \<^verbatim>\<open>0\<close> are falsy and give
  \<^verbatim>\<open>0 + n\<close>; a string, a function and the prototype object are truthy, and \<^verbatim>\<open>+\<close> with a
  string or an object operand is string concatenation.
\<close>

fun or_zero_plus :: "js_lookup \<Rightarrow> rat \<Rightarrow> js_value" where
  "or_zero_plus Undefined n = Num (0 + n)"
| "or_zero_plus (Own (Num v)) n = Num ((if v = 0 then 0 else v) + n)"
| "or_zero_plus (Own Text) n = Text"
| "or_zero_plus Inherited n = Text"

text \<open>
  ECMAScript's array index: a canonical numeric string (decimal digits, no leading zero
  but for \<^verbatim>\<open>"0"\<close> itself) whose value is at most \<open>2\<^sup>3\<^sup>2 - 2\<close>.
\<close>

definition is_digit :: "char \<Rightarrow> bool" where
  "is_digit c = (48 \<le> (of_char c :: nat) \<and> (of_char c :: nat) \<le> 57)"

definition numeric_value :: "string \<Rightarrow> nat" where
  "numeric_value s = foldl (\<lambda>n c. 10 * n + ((of_char c :: nat) - 48)) 0 s"

definition is_array_index :: "string \<Rightarrow> bool" where
  "is_array_index s =
     (s \<noteq> [] \<and> list_all is_digit s \<and> (s = ''0'' \<or> hd s \<noteq> CHR ''0'')
      \<and> numeric_value s \<le> 4294967294)"

text \<open>
  \<^verbatim>\<open>Object.entries(obj)\<close> lists the own properties in the order of
  \<^verbatim>\<open>OrdinaryOwnPropertyKeys\<close>: first the keys that are array indices, in ascending numeric
  order, then the other string keys in the order of their creation.
\<close>

definition Object_entries :: "(string \<times> 'v) list \<Rightarrow> (string \<times> 'v) list" where
  "Object_entries obj =
     sort_key (\<lambda>p. numeric_value (fst p)) (filter (\<lambda>p. is_array_index (fst p)) obj)
     @ filter (\<lambda>p. \<not> is_array_index (fst p)) obj"

text \<open>
  \<^verbatim>\<open>transactions.reduce((acc, trans) => {
     acc[trans.category_name] = (acc[trans.category_name] || 0) + Number(trans.amount);
     return acc; }, {})\<close>
\<close>

definition totals_step :: "js_record \<Rightarrow> Transaction \<Rightarrow> js_record" where
  "totals_step =
     (\<lambda>acc trans.
        set_prop acc (category_name trans)
          (or_zero_plus (get_prop acc (category_name trans)) (amount trans)))"

definition categoryTotals :: "Transaction list \<Rightarrow> js_record" where
  "categoryTotals txs = foldl totals_step [] txs"

record TopCategory =
  top_category_name :: string
  top_amount :: rat
  percentage :: rat

text \<open>
  \<^verbatim>\<open>.sort((a, b) => b.amount - a.amount)\<close> on entries whose amounts are numbers:
  \<^verbatim>\<open>Array.prototype.sort\<close> is stable (ECMAScript 2019) and puts \<^verbatim>\<open>a\<close> before \<^verbatim>\<open>b\<close> when the
  comparator is negative, that is when \<^verbatim>\<open>a.amount > b.amount\<close>: a stable sort on the
  negated amount.
\<close>

definition sort_amount_desc :: "TopCategory list \<Rightarrow> TopCategory list" where
  "sort_amount_desc es = sort_key (\<lambda>e. - top_amount e) es"

text \<open>
  The entries of the object when all its values are numbers. When a value is a string the
  comparator of the sort yields \<^verbatim>\<open>NaN\<close> on it, is not a consistent comparator, and the
  order that \<^verbatim>\<open>sort\<close> leaves is implementation-defined; the entry's \<^verbatim>\<open>amount\<close> is then no
  number either. The model gives no list of top categories in that case (\<open>None\<close>).
\<close>

fun numeric_entries :: "(string \<times> js_value) list \<Rightarrow> (string \<times> rat) list option" where
  "numeric_entries [] = Some []"
| "numeric_entries ((k, Num v) # es) = map_option (\<lambda>r. (k, v) # r) (numeric_entries es)"
| "numeric_entries ((k, Text) # es) = None"

text \<open>
  \<^verbatim>\<open>Object.entries(categoryTotals)
     .map(([category_name, amount]) => ({ category_name, amount,
        percentage: totalExpenses > 0 ? (amount / totalExpenses) * 100 : 0 }))
     .sort((a, b) => b.amount - a.amount)
     .slice(0, 5)\<close>
\<close>

definition top_entry :: "rat \<Rightarrow> string \<times> rat \<Rightarrow> TopCategory" where
  "top_entry totExpenses =
     (\<lambda>(name, amt).
        \<lparr>top_category_name = name, top_amount = amt,
         percentage = (if totExpenses > 0 then (amt / totExpenses) * 100 else 0)\<rparr>)"

definition top_five :: "rat \<Rightarrow> (string \<times> rat) list \<Rightarrow> TopCategory list" where
  "top_five totExpenses entries = take 5 (sort_amount_desc (map (top_entry totExpenses) entries))"

definition topCategories_of :: "js_record \<Rightarrow> rat \<Rightarrow> TopCategory list option" where
  "topCategories_of totals totExpenses =
     map_option (top_five totExpenses) (numeric_entries (Object_entries totals))"

record DashboardSummary =
  monthlyGoal :: "MonthlyGoal option"
  transactions :: "Transaction list"
  totalIncome :: rat
  totalExpenses :: rat
  actualSavings :: rat
  expectedSavings :: rat
  topCategories :: "TopCategory list option"
  monthlyProgress :: rat

text \<open>
  The body of \<^verbatim>\<open>getDashboardSummary\<close> after its two reads: \<open>goal\<close> and \<open>txs\<close> are what
  \<^verbatim>\<open>getCurrentMonthlyGoal\<close> and \<^verbatim>\<open>getCurrentMonthTransactions\<close> returned.
\<close>

definition getDashboardSummary :: "MonthlyGoal option \<Rightarrow> Transaction list \<Rightarrow> DashboardSummary" where
  "getDashboardSummary goal txs =
     \<lparr>monthlyGoal = goal,
      transactions = txs,
      totalIncome = totalIncome_of goal,
      totalExpenses = totalExpenses_of txs,
      actualSavings = totalIncome_of goal - totalExpenses_of txs,
      expectedSavings = totalIncome_of goal - totalExpectedExpenses goal,
      topCategories = topCategories_of (categoryTotals txs) (totalExpenses_of txs),
      monthlyProgress = monthlyProgress_of (totalExpenses_of txs) (totalExpectedExpenses goal)\<rparr>"

subsection \<open>The store (\<^verbatim>\<open>database/schema.sql\<close>)\<close>

text \<open>
  The tables the service works on, each a list of rows. Of the schema the model keeps what
  it declares as constraints and triggers on these tables: the primary keys, \<^verbatim>\<open>UNIQUE(name,
  user_id)\<close> on \<^verbatim>\<open>categories\<close>, the conflict target \<^verbatim>\<open>UNIQUE(user_id, month)\<close> on
  \<^verbatim>\<open>monthly_goals\<close>, \<^verbatim>\<open>ON DELETE CASCADE\<close> from \<^verbatim>\<open>transactions.category_id\<close>, and the
  \<^verbatim>\<open>BEFORE UPDATE\<close> triggers that stamp \<^verbatim>\<open>updated_at\<close>. The length of a \<^verbatim>\<open>VARCHAR\<close>, the
  range of a \<^verbatim>\<open>DECIMAL\<close>, the references to \<^verbatim>\<open>users\<close> and failures of the connection are
  not modelled: but for \<open>deleteCategory\<close>, which takes the store's refusal as an input, a
  call to the store fails only by one of the constraints above.
\<close>

record Store =
  categories_tbl :: "Category list"
  monthly_goals_tbl :: "MonthlyGoal list"
  transactions_tbl :: "Transaction list"

text \<open>
  What the environment supplies to one call of the service: the identifier that
  \<^verbatim>\<open>uuid_generate_v4()\<close> draws for an inserted row, the service's clock
  (\<^verbatim>\<open>new Date().toISOString()\<close>) and the store's clock (\<^verbatim>\<open>NOW()\<close>).
\<close>

record Env =
  newId :: string
  jsNow :: string
  dbNow :: string

text \<open>\<^verbatim>\<open>createError(message, statusCode)\<close> of the error-handling middleware.\<close>

datatype service_error = createError string nat

text \<open>
  The result \<^verbatim>\<open>{ data, error }\<close> of a query: the flag says that \<^verbatim>\<open>error\<close> is set.
  \<^verbatim>\<open>.maybeSingle()\<close> accepts no row or one row, \<^verbatim>\<open>.single()\<close> exactly one row;
  \<^verbatim>\<open>.limit(1)\<close> keeps the first row.
\<close>

definition maybeSingle :: "'a list \<Rightarrow> bool \<times> 'a option" where
  "maybeSingle rows = (case rows of [] \<Rightarrow> (False, None) | [r] \<Rightarrow> (False, Some r) | _ \<Rightarrow> (True, None))"

definition single :: "'a list \<Rightarrow> bool \<times> 'a option" where
  "single rows = (case rows of [r] \<Rightarrow> (False, Some r) | _ \<Rightarrow> (True, None))"

definition limit1 :: "'a list \<Rightarrow> 'a list" where
  "limit1 rows = take 1 rows"

text \<open>
  The identifiers are \<^verbatim>\<open>UUID\<close> columns. The store holds and prints a UUID in its
  canonical spelling and compares a reference with it by value: it reads the hexadecimal
  digits in either case, with or without the hyphens and surrounding braces. The account
  identifier comes from the verified token in the canonical spelling and is compared as
  it is.
\<close>

definition hex_lower :: "char \<Rightarrow> char" where
  "hex_lower c = (case map_of (zip ''ABCDEF'' ''abcdef'') c of Some l \<Rightarrow> l | None \<Rightarrow> c)"

definition uuid_digits :: "string \<Rightarrow> string" where
  "uuid_digits ref = map hex_lower (filter (\<lambda>c. c \<notin> set ''-{}'') ref)"

definition same_uuid :: "string \<Rightarrow> string \<Rightarrow> bool" where
  "same_uuid stored ref = (uuid_digits stored = uuid_digits ref)"

text \<open>The filter \<^verbatim>\<open>.or(`user_id.eq.${userId},is_default.eq.true`)\<close>.\<close>

definition visible_to :: "string \<Rightarrow> Category \<Rightarrow> bool" where
  "visible_to userId c = (cat_user_id c = Some userId \<or> is_default c)"

text \<open>
  \<^verbatim>\<open>.from('categories').insert(row).select('id,name').single()\<close>: the insert is refused when
  the identifier is taken (primary key) or when the same owner already has a category of
  that name (\<^verbatim>\<open>UNIQUE(name, user_id)\<close>; rows without an owner never conflict, a null being
  distinct from every value).
\<close>

definition insert_category :: "Category \<Rightarrow> Store \<Rightarrow> (bool \<times> Category option) \<times> Store" where
  "insert_category row s =
     (if list_ex (\<lambda>c. same_uuid (cat_id c) (cat_id row)) (categories_tbl s)
         \<or> list_ex (\<lambda>c. cat_name c = cat_name row \<and> cat_user_id c = cat_user_id row
                          \<and> cat_user_id row \<noteq> None) (categories_tbl s)
      then ((True, None), s)
      else (single [row], s\<lparr>categories_tbl := categories_tbl s @ [row]\<rparr>))"

subsection \<open>Strings of the resolver\<close>

text \<open>\<^verbatim>\<open>/^[0-9a-f]{8}-[0-9a-f]{4}-[1-5][0-9a-f]{3}-[89ab][0-9a-f]{3}-[0-9a-f]{12}$/i\<close>\<close>

definition is_hex :: "char \<Rightarrow> bool" where
  "is_hex c = (c \<in> set ''0123456789abcdefABCDEF'')"

definition isUuid :: "string option \<Rightarrow> bool" where
  "isUuid value =
     (case value of
        None \<Rightarrow> False
      | Some v \<Rightarrow>
          length v = 36
          \<and> list_all is_hex (take 8 v) \<and> v ! 8 = CHR ''-''
          \<and> list_all is_hex (take 4 (drop 9 v)) \<and> v ! 13 = CHR ''-''
          \<and> v ! 14 \<in> set ''12345'' \<and> list_all is_hex (take 3 (drop 15 v)) \<and> v ! 18 = CHR ''-''
          \<and> v ! 19 \<in> set ''89abAB'' \<and> list_all is_hex (take 3 (drop 20 v)) \<and> v ! 23 = CHR ''-''
          \<and> list_all is_hex (drop 24 v))"

text \<open>A string, or \<^verbatim>\<open>undefined\<close>, used as a condition: the empty string is falsy.\<close>

definition truthy :: "string option \<Rightarrow> bool" where
  "truthy v = (case v of None \<Rightarrow> False | Some str \<Rightarrow> str \<noteq> [])"

text \<open>
  \<^verbatim>\<open>String.prototype.trim\<close>, on ASCII text: tab, line feed, vertical tab, form feed,
  carriage return and space.
\<close>

definition is_space :: "char \<Rightarrow> bool" where
  "is_space c = (c \<in> set [CHR 0x09, CHR 0x0A, CHR 0x0B, CHR 0x0C, CHR 0x0D, CHR 0x20])"

definition trim :: "string \<Rightarrow> string" where
  "trim str = rev (dropWhile is_space (rev (dropWhile is_space str)))"

text \<open>\<^verbatim>\<open>categoryId.replace(/-/g, ' ')\<close>\<close>

definition hyphens_to_spaces :: "string \<Rightarrow> string" where
  "hyphens_to_spaces str = map (\<lambda>c. if c = CHR ''-'' then CHR '' '' else c) str"

text \<open>
  \<^verbatim>\<open>spaced.replace(/\b\w/g, (c) => c.toUpperCase())\<close>: \<^verbatim>\<open>\w\<close> is \<^verbatim>\<open>[A-Za-z0-9_]\<close>, and
  \<^verbatim>\<open>\b\<close> holds before a word character exactly when the character before it (if any) is
  not one. The flag of \<open>capitalize_words\<close> says whether the previous character was a
  word character.
\<close>

definition is_word_char :: "char \<Rightarrow> bool" where
  "is_word_char c =
     (c \<in> set ''abcdefghijklmnopqrstuvwxyzABCDEFGHIJKLMNOPQRSTUVWXYZ0123456789_'')"

definition toUpperCase :: "char \<Rightarrow> char" where
  "toUpperCase c =
     (case map_of (zip ''abcdefghijklmnopqrstuvwxyz'' ''ABCDEFGHIJKLMNOPQRSTUVWXYZ'') c of
        Some u \<Rightarrow> u
      | None \<Rightarrow> c)"

fun capitalize_words :: "bool \<Rightarrow> string \<Rightarrow> string" where
  "capitalize_words prev [] = []"
| "capitalize_words prev (c # cs) =
     (if is_word_char c \<and> \<not> prev then toUpperCase c else c)
       # capitalize_words (is_word_char c) cs"

definition title_case :: "string \<Rightarrow> string" where
  "title_case spaced = capitalize_words False spaced"

subsection \<open>The category resolver (\<^verbatim>\<open>resolveCategoryId\<close>)\<close>

text \<open>\<^verbatim>\<open>value || ''\<close>\<close>

definition or_empty :: "string option \<Rightarrow> string" where
  "or_empty v = (case v of None \<Rightarrow> [] | Some str \<Rightarrow> str)"

text \<open>
  \<^verbatim>\<open>.select('id,name').eq('id', categoryId).or(...).maybeSingle()\<close> and
  \<^verbatim>\<open>.select('id,name').eq('name', categoryName).or(...).limit(1).maybeSingle()\<close>
\<close>

definition find_by_id :: "string \<Rightarrow> string \<Rightarrow> Store \<Rightarrow> bool \<times> Category option" where
  "find_by_id userId categoryId s =
     maybeSingle
       (filter (\<lambda>c. same_uuid (cat_id c) categoryId \<and> visible_to userId c) (categories_tbl s))"

definition find_by_name :: "string \<Rightarrow> string \<Rightarrow> Store \<Rightarrow> bool \<times> Category option" where
  "find_by_name userId categoryName s =
     maybeSingle (limit1
       (filter (\<lambda>c. cat_name c = categoryName \<and> visible_to userId c) (categories_tbl s)))"

text \<open>\<^verbatim>\<open>if (!error && data) return { id: data.id, name: data.name }\<close>\<close>

definition found :: "bool \<times> Category option \<Rightarrow> (string \<times> string) option" where
  "found res = (case res of (False, Some d) \<Rightarrow> Some (cat_id d, cat_name d) | _ \<Rightarrow> None)"

text \<open>
  \<^verbatim>\<open>let derivedName = categoryName;
  if ((!derivedName || derivedName.trim().length === 0) && categoryId && !this.isUuid(categoryId)) {
    const spaced = categoryId.replace(/-/g, ' ');
    derivedName = spaced.replace(/\b\w/g, (c) => c.toUpperCase());
  }\<close>
\<close>

definition derive_name :: "string option \<Rightarrow> string option \<Rightarrow> string option" where
  "derive_name categoryId categoryName =
     (if (\<not> truthy categoryName \<or> length (trim (or_empty categoryName)) = 0)
         \<and> truthy categoryId \<and> \<not> isUuid categoryId
      then Some (title_case (hyphens_to_spaces (or_empty categoryId)))
      else categoryName)"

definition resolveCategoryId ::
  "Env \<Rightarrow> string \<Rightarrow> string option \<Rightarrow> string option \<Rightarrow> bool \<Rightarrow> Store
     \<Rightarrow> (string \<times> string) option \<times> Store" where
  "resolveCategoryId env userId categoryId categoryName createIfMissing s =
     (case (if isUuid (Some (or_empty categoryId))
            then found (find_by_id userId (or_empty categoryId) s) else None) of
        Some r \<Rightarrow> (Some r, s)
      | None \<Rightarrow>
          (case (if truthy categoryName \<and> length (trim (or_empty categoryName)) > 0
                 then found (find_by_name userId (or_empty categoryName) s) else None) of
             Some r \<Rightarrow> (Some r, s)
           | None \<Rightarrow>
               (if createIfMissing \<and> truthy (derive_name categoryId categoryName)
                then (case insert_category
                             \<lparr>cat_id = newId env,
                              cat_name = or_empty (derive_name categoryId categoryName),
                              color = ''#6B7280'', icon = ''more-horizontal'',
                              is_default = False, cat_user_id = Some userId,
                              cat_created_at = dbNow env\<rparr> s of
                        (created, s') \<Rightarrow> (found created, s'))
                else (None, s))))"

subsection \<open>Goal upsert (\<^verbatim>\<open>createMonthlyGoal\<close>)\<close>

record CreateMonthlyGoalRequest =
  req_month :: string
  req_income :: rat
  req_expenses :: "CategoryExpense list"



subsection \<open>Transaction update (\<^verbatim>\<open>updateTransaction\<close>)\<close>

text \<open>\<^verbatim>\<open>Partial<CreateTransactionRequest>\<close>: every field may be absent.\<close>

record TransactionUpdates =
  upd_category_id :: "string option"
  upd_category_name :: "string option"
  upd_amount :: "rat option"
  upd_description :: "string option"
  upd_date :: "string option"

text \<open>
  \<^verbatim>\<open>.from('transactions').update(values).eq('id', transactionId).eq('user_id', userId)
     .select().single()\<close>, the trigger stamping \<^verbatim>\<open>updated_at\<close> on every row it changes.
\<close>

definition update_transactions ::
  "Env \<Rightarrow> string \<Rightarrow> string \<Rightarrow> (Transaction \<Rightarrow> Transaction) \<Rightarrow> Store
     \<Rightarrow> (bool \<times> Transaction option) \<times> Store" where
  "update_transactions env transactionId userId values s =
     (single (map (\<lambda>t. (values t)\<lparr>tx_updated_at := dbNow env\<rparr>)
                (filter (\<lambda>t. same_uuid (tx_id t) transactionId \<and> tx_user_id t = userId)
                   (transactions_tbl s))),
      s\<lparr>transactions_tbl :=
           map (\<lambda>t. if same_uuid (tx_id t) transactionId \<and> tx_user_id t = userId
                      then (values t)\<lparr>tx_updated_at := dbNow env\<rparr> else t)
             (transactions_tbl s)\<rparr>)"

text \<open>
  \<open>isoMonth\<close> stands for \<^verbatim>\<open>new Date(d).toISOString().slice(0, 7)\<close>: the month key of a
  date string, or \<open>None\<close> when the string is no date and \<^verbatim>\<open>toISOString\<close> throws a
  \<^verbatim>\<open>RangeError\<close>, which the \<^verbatim>\<open>catch\<close> turns into the error 500. The defaulted parameter
  \<^verbatim>\<open>createIfMissing\<close> of the resolver is \<open>True\<close> here.
\<close>

definition updateTransaction ::
  "(string \<Rightarrow> string option) \<Rightarrow> Env \<Rightarrow> string \<Rightarrow> string \<Rightarrow> TransactionUpdates \<Rightarrow> Store
     \<Rightarrow> (service_error + Transaction) \<times> Store" where
  "updateTransaction isoMonth env userId transactionId updates s =
     (case single (filter (\<lambda>t. same_uuid (tx_id t) transactionId \<and> tx_user_id t = userId)
                     (transactions_tbl s)) of
        (False, Some existing) \<Rightarrow>
          (case (if truthy (upd_date updates)
                 then map_option (\<lambda>m. (or_empty (upd_date updates), m))
                        (isoMonth (or_empty (upd_date updates)))
                 else Some (date existing, month existing)) of
             None \<Rightarrow> (Inl (createError ''Failed to update transaction'' 500), s)
           | Some (newDate, mon) \<Rightarrow>
               (case (if truthy (upd_category_id updates) \<or> truthy (upd_category_name updates)
                      then resolveCategoryId env userId (upd_category_id updates)
                             (upd_category_name updates) True s
                      else (Some (category_id existing, category_name existing), s)) of
                  (None, s') \<Rightarrow>
                    (Inl (createError
                       ''Unknown category. Provide a valid category_id or category_name.'' 400), s')
                | (Some (categoryIdToUse, categoryNameToUse), s') \<Rightarrow>
                    (case update_transactions env transactionId userId
                            (\<lambda>t. t\<lparr>category_id := categoryIdToUse,
                                    category_name := categoryNameToUse,
                                    amount := (case upd_amount updates of
                                                 None \<Rightarrow> amount existing | Some a \<Rightarrow> a),
                                    description := (case upd_description updates of
                                                      None \<Rightarrow> description existing | Some d \<Rightarrow> d),
                                    date := newDate, month := mon,
                                    tx_updated_at := jsNow env\<rparr>) s' of
                       ((False, updated), s'') \<Rightarrow>
                         (case updated of
                            Some u \<Rightarrow> (Inr u, s'')
                          | None \<Rightarrow> (Inl (createError ''Failed to update transaction'' 500), s''))
                     | ((True, _), s'') \<Rightarrow>
                         (Inl (createError ''Failed to update transaction'' 500), s''))))
      | _ \<Rightarrow> (Inl (createError ''Transaction not found'' 404), s))"

subsection \<open>Category deletion (\<^verbatim>\<open>deleteCategory\<close>)\<close>



subsection \<open>Reference notions of the statements\<close>

text \<open>
  The distinct elements of a list in the order of their first occurrence, the sum of the
  amounts of the transactions recorded under one category name, the groups the
  specification asks for (one per category name, in the order of first occurrence, with
  its sum), and the position of the first occurrence of an element.
\<close>

fun first_seen :: "'a list \<Rightarrow> 'a list" where
  "first_seen [] = []"
| "first_seen (x # xs) = x # filter (\<lambda>y. y \<noteq> x) (first_seen xs)"

definition group_sum :: "Transaction list \<Rightarrow> string \<Rightarrow> rat" where
  "group_sum txs name = sum_list (map amount (filter (\<lambda>t. category_name t = name) txs))"

definition category_groups :: "Transaction list \<Rightarrow> (string \<times> rat) list" where
  "category_groups txs =
     map (\<lambda>name. (name, group_sum txs name)) (first_seen (map category_name txs))"

definition first_occurrence :: "'a \<Rightarrow> 'a list \<Rightarrow> nat" where
  "first_occurrence x xs = length (takeWhile (\<lambda>y. y \<noteq> x) xs)"



definition replace_goal :: "Env \<Rightarrow> CreateMonthlyGoalRequest \<Rightarrow> MonthlyGoal \<Rightarrow> MonthlyGoal" where
  "replace_goal env goalData g =
     g\<lparr>income := req_income goalData, expenses := req_expenses goalData,
       goal_updated_at := dbNow env\<rparr>"


subsection \<open>Example data\<close>

definition example_tx :: "string \<Rightarrow> rat \<Rightarrow> Transaction" where
  "example_tx name amt =
     \<lparr>tx_id = ''t'', tx_user_id = ''u'', category_id = ''c'', category_name = name,
      amount = amt, description = ''d'', date = ''2024-05-01'', month = ''2024-05'',
      tx_created_at = ''0'', tx_updated_at = ''0''\<rparr>"


definition example_env :: "string \<Rightarrow> Env" where
  "example_env ident = \<lparr>newId = ident, jsNow = ''2024-05-02T10:00:00.000Z'', dbNow = ''2024-05-02 10:00:00+00''\<rparr>"

definition example_category :: "string \<Rightarrow> string \<Rightarrow> bool \<Rightarrow> string option \<Rightarrow> Category" where
  "example_category ident name dflt own =
     \<lparr>cat_id = ident, cat_name = name, color = ''#FF6B6B'', icon = ''home'',
      is_default = dflt, cat_user_id = own, cat_created_at = ''2024-01-01 00:00:00+00''\<rparr>"

definition empty_store :: Store where
  "empty_store = \<lparr>categories_tbl = [], monthly_goals_tbl = [], transactions_tbl = []\<rparr>"

definition alice :: string where
  "alice = ''a11ce000-0000-4000-8000-000000000001''"

definition bob :: string where
  "bob = ''b0b00000-0000-4000-8000-000000000002''"

definition uuid1 :: string where
  "uuid1 = ''c0ffee00-1111-4111-8111-111111111111''"

definition uuid1_upper :: string where
  "uuid1_upper = ''C0FFEE00-1111-4111-8111-111111111111''"

definition uuid2 :: string where
  "uuid2 = ''22222222-2222-4222-8222-222222222222''"

definition uuid3 :: string where
  "uuid3 = ''33333333-3333-4333-8333-333333333333''"

definition bobs_store :: Store where
  "bobs_store = \<lparr>categories_tbl = [example_category uuid1 ''Pets'' False (Some bob)],
                  monthly_goals_tbl = [], transactions_tbl = []\<rparr>"

definition alices_store :: Store where
  "alices_store = \<lparr>categories_tbl = [example_category uuid1 ''Food Groceries'' False (Some alice)],
                  monthly_goals_tbl = [], transactions_tbl = []\<rparr>"

definition example_transaction :: "string \<Rightarrow> string \<Rightarrow> string \<Rightarrow> Transaction" where
  "example_transaction ident own cat =
     \<lparr>tx_id = ident, tx_user_id = own, category_id = cat, category_name = ''Pets'',
      amount = 42, description = ''vet'', date = ''2024-05-01'', month = ''2024-05'',
      tx_created_at = ''2024-05-01 09:00:00+00'', tx_updated_at = ''2024-05-01 09:00:00+00''\<rparr>"

definition pets_store :: Store where
  "pets_store = \<lparr>categories_tbl = [example_category uuid1 ''Pets'' False (Some bob)],
                  monthly_goals_tbl = [],
                  transactions_tbl = [example_transaction uuid2 bob uuid1]\<rparr>"

definition category_only :: "string \<Rightarrow> TransactionUpdates" where
  "category_only ref = \<lparr>upd_category_id = Some ref, upd_category_name = None, upd_amount = None,
                         upd_description = None, upd_date = None\<rparr>"



section \<open>Properties\<close>

subsection \<open>Lists: order, sorting and subsequences\<close>

lemma alist_by_keys:
  assumes "distinct (map fst xs)"
  shows "xs = map (\<lambda>k. (k, the (map_of xs k))) (map fst xs)"
proof -
  have "(fst p, the (map_of xs (fst p))) = p" if "p \<in> set xs" for p
  proof -
    from that have "(fst p, snd p) \<in> set xs" by simp
    with assms have "map_of xs (fst p) = Some (snd p)" by (rule map_of_is_SomeI)
    then show ?thesis by simp
  qed
  then have "map (\<lambda>p. (fst p, the (map_of xs (fst p)))) xs = xs"
    by (intro map_idI)
  then show ?thesis by (simp add: comp_def)
qed

lemma distinct_map_sort_key:
  "distinct (map f (sort_key g xs)) = distinct (map f xs)"
  by (simp add: distinct_map)

lemma sorted_wrt_take_local: "sorted_wrt R xs \<Longrightarrow> sorted_wrt R (take n xs)"
  by (metis append_take_drop_id sorted_wrt_append)

lemma filter_inj_key:
  "distinct zs \<Longrightarrow> k \<in> set zs \<Longrightarrow> inj_on f (set zs) \<Longrightarrow> filter (\<lambda>x. f k = f x) zs = [k]"
proof (induction zs)
  case Nil
  then show ?case by simp
next
  case (Cons z zs)
  show ?case
  proof (cases "z = k")
    case True
    with Cons.prems have "\<forall>x\<in>set zs. f k \<noteq> f x"
      by (auto simp: inj_on_def)
    then have "filter (\<lambda>x. f k = f x) zs = []" by (simp add: filter_empty_conv)
    with True show ?thesis by simp
  next
    case False
    with Cons.prems have "k \<in> set zs" "f k \<noteq> f z" "distinct zs" "inj_on f (set zs)"
      by (auto simp: inj_on_def)
    with Cons.IH show ?thesis by simp
  qed
qed

lemma sort_key_unique:
  assumes "distinct xs" "distinct ys" "set xs = set ys" "inj_on f (set ys)" "sorted (map f ys)"
  shows "sort_key f xs = ys"
proof (rule properties_for_sort_key)
  from assms(1-3) show "mset ys = mset xs"
    by (simp add: set_eq_iff_mset_eq_distinct [symmetric])
next
  fix k assume k: "k \<in> set ys"
  with assms(2,4) have "filter (\<lambda>x. f k = f x) ys = [k]" by (intro filter_inj_key)
  moreover from assms(1,3,4) k have "filter (\<lambda>x. f k = f x) xs = [k]"
    by (intro filter_inj_key) simp_all
  ultimately show "filter (\<lambda>x. f k = f x) ys = filter (\<lambda>x. f k = f x) xs" by simp
next
  from assms(5) show "sorted (map f ys)" .
qed







lemma set_first_seen [simp]: "set (first_seen xs) = set xs"
  by (induction xs) auto

lemma distinct_first_seen [simp]: "distinct (first_seen xs)"
  by (induction xs) auto

subsection \<open>The scalar totals of the dashboard\<close>

lemma foldl_add_sum_list: "foldl (\<lambda>s x. s + f x) a xs = a + sum_list (map f xs)" for a :: rat
  by (induction xs arbitrary: a) (simp_all add: add.assoc)

lemma or_zero_Some [simp]: "or_zero (Some v) = v"
  by simp

lemma totalExpenses_of_sum: "totalExpenses_of txs = sum_list (map amount txs)"
  by (simp add: totalExpenses_of_def foldl_add_sum_list)




subsection \<open>The progress of the month\<close>



subsection \<open>The category groups\<close>

lemma keys_set_prop:
  "k \<noteq> ''__proto__'' \<Longrightarrow>
   map fst (set_prop obj k v) = (if k \<in> set (map fst obj) then map fst obj else map fst obj @ [k])"
  by (auto simp: set_prop_def split_def intro!: map_idI)

lemma map_of_overwrite_other:
  "x \<noteq> k \<Longrightarrow>
     map_of (map (\<lambda>p. if fst p = k then (fst p, v) else p) obj) x = map_of obj x"
  by (induction obj) simp_all

lemma map_of_overwrite_same:
  "k \<in> fst ` set obj \<Longrightarrow>
     map_of (map (\<lambda>p. if fst p = k then (fst p, v) else p) obj) k = Some v"
  by (induction obj) auto

lemma set_prop_alt:
  "k \<noteq> ''__proto__'' \<Longrightarrow>
   set_prop obj k v =
     (if k \<in> fst ` set obj then map (\<lambda>p. if fst p = k then (fst p, v) else p) obj
      else obj @ [(k, v)])"
  by (simp add: set_prop_def split_def cong: if_cong)

lemma map_of_set_prop:
  assumes "k \<noteq> ''__proto__''"
  shows "map_of (set_prop obj k v) x = ((map_of obj)(k \<mapsto> v)) x"
proof (cases "k \<in> fst ` set obj")
  case True
  with assms show ?thesis
    by (cases "x = k") (simp_all add: set_prop_alt map_of_overwrite_other map_of_overwrite_same)
next
  case False
  then have "map_of obj k = None" by (simp add: map_of_eq_None_iff)
  with False assms show ?thesis
    by (simp add: set_prop_alt map_add_def split: option.splits)
qed

lemma not_inherited_proto: "\<not> inherited k \<Longrightarrow> k \<noteq> ''__proto__''"
  by (auto simp: inherited_def object_prototype_names_def)

lemma keys_foldl_totals:
  assumes "\<forall>t\<in>set txs. category_name t \<noteq> ''__proto__''"
  shows "map fst (foldl totals_step acc txs)
     = map fst acc @ filter (\<lambda>n. n \<notin> set (map fst acc)) (first_seen (map category_name txs))"
  using assms
proof (induction txs arbitrary: acc)
  case Nil
  then show ?case by simp
next
  case (Cons t txs)
  from Cons.prems have p: "category_name t \<noteq> ''__proto__''"
    and rest: "\<forall>t\<in>set txs. category_name t \<noteq> ''__proto__''" by simp_all
  note IH = Cons.IH [OF rest]
  show ?case
  proof (cases "category_name t \<in> set (map fst acc)")
    case True
    with p have "map fst (totals_step acc t) = map fst acc"
      by (simp add: totals_step_def keys_set_prop)
    with True show ?thesis
      by (auto simp: IH intro!: filter_cong)
  next
    case False
    with p have "map fst (totals_step acc t) = map fst acc @ [category_name t]"
      by (simp add: totals_step_def keys_set_prop)
    with False show ?thesis
      by (auto simp: IH conj_commute intro!: filter_cong)
  qed
qed

lemma group_sum_Cons:
  "group_sum (t # txs) n = (if category_name t = n then amount t else 0) + group_sum txs n"
  by (simp add: group_sum_def)

lemma map_of_foldl_totals:
  assumes "\<forall>t\<in>set txs. \<not> inherited (category_name t)"
  shows "map_of (foldl totals_step acc txs) n
     = (case map_of acc n of
          None \<Rightarrow> if n \<in> set (map category_name txs) then Some (Num (group_sum txs n)) else None
        | Some (Num v) \<Rightarrow> Some (Num (v + group_sum txs n))
        | Some Text \<Rightarrow> Some Text)"
  using assms
proof (induction txs arbitrary: acc)
  case Nil
  then show ?case by (simp add: group_sum_def split: option.splits js_value.splits)
next
  case (Cons t txs)
  from Cons.prems have i: "\<not> inherited (category_name t)"
    and rest: "\<forall>t\<in>set txs. \<not> inherited (category_name t)" by simp_all
  from i have p: "category_name t \<noteq> ''__proto__''" by (rule not_inherited_proto)
  have "map_of (totals_step acc t) = (map_of acc)(category_name t \<mapsto>
          or_zero_plus (get_prop acc (category_name t)) (amount t))"
    by (rule ext) (simp add: totals_step_def map_of_set_prop [OF p])
  moreover have "get_prop acc (category_name t)
      = (case map_of acc (category_name t) of Some v \<Rightarrow> Own v | None \<Rightarrow> Undefined)"
    using i by (simp add: get_prop_def)
  ultimately show ?case
    by (auto simp: Cons.IH [OF rest] group_sum_Cons split: option.splits js_value.splits)
qed

lemma categoryTotals_groups:
  assumes "\<forall>t\<in>set txs. \<not> inherited (category_name t)"
  shows "categoryTotals txs = map (\<lambda>(k, v). (k, Num v)) (category_groups txs)"
proof -
  from assms have np: "\<forall>t\<in>set txs. category_name t \<noteq> ''__proto__''"
    by (auto dest: not_inherited_proto)
  have k: "map fst (categoryTotals txs) = first_seen (map category_name txs)"
    using keys_foldl_totals [OF np, of "[]"] by (simp add: categoryTotals_def)
  then have "distinct (map fst (categoryTotals txs))" by simp
  from alist_by_keys [OF this]
  have "categoryTotals txs
          = map (\<lambda>n. (n, the (map_of (categoryTotals txs) n))) (first_seen (map category_name txs))"
    by (simp only: k)
  also have "\<dots> = map (\<lambda>n. (n, Num (group_sum txs n))) (first_seen (map category_name txs))"
    using map_of_foldl_totals [OF assms, of "[]"] by (auto simp: categoryTotals_def)
  finally show ?thesis by (simp add: category_groups_def comp_def)
qed

lemma proto_step: "category_name t = ''__proto__'' \<Longrightarrow> totals_step acc t = acc"
  by (simp add: totals_step_def set_prop_def)

lemma categoryTotals_without_proto:
  "categoryTotals txs = categoryTotals (filter (\<lambda>t. category_name t \<noteq> ''__proto__'') txs)"
proof -
  have "foldl totals_step acc txs
          = foldl totals_step acc (filter (\<lambda>t. category_name t \<noteq> ''__proto__'') txs)" for acc
    by (induction txs arbitrary: acc) (simp_all add: proto_step)
  then show ?thesis by (simp add: categoryTotals_def)
qed

subsection \<open>The top categories\<close>

lemma top_entry_sel [simp]:
  "top_category_name (top_entry te p) = fst p"
  "top_amount (top_entry te p) = snd p"
  "percentage (top_entry te p) = (if te > 0 then (snd p / te) * 100 else 0)"
  by (simp_all add: top_entry_def split_def)

lemma top_five_alt:
  "top_five te es = take 5 (sort_key (\<lambda>e. - top_amount e) (map (top_entry te) es))"
  by (simp add: top_five_def sort_amount_desc_def)

lemma set_Object_entries [simp]: "set (Object_entries obj) = set obj"
  by (auto simp: Object_entries_def)

lemma length_Object_entries [simp]: "length (Object_entries obj) = length obj"
  by (simp add: Object_entries_def sum_length_filter_compl)

lemma distinct_keys_Object_entries:
  assumes "distinct (map fst obj)"
  shows "distinct (map fst (Object_entries obj))"
proof -
  from assms have d: "distinct obj" and i: "inj_on fst (set obj)"
    by (simp_all add: distinct_map)
  from d have "distinct (Object_entries obj)"
    by (auto simp: Object_entries_def)
  moreover from i have "inj_on fst (set (Object_entries obj))" by simp
  ultimately show ?thesis by (simp only: distinct_map)
qed

lemma insort_key_map_values:
  "insort_key (\<lambda>p. g (fst p)) (k, f v) (map (\<lambda>(k, v). (k, f v)) ys)
     = map (\<lambda>(k, v). (k, f v)) (insort_key (\<lambda>p. g (fst p)) (k, v) ys)"
  by (induction ys) (auto simp: split_def)

lemma sort_key_map_values:
  "sort_key (\<lambda>p. g (fst p)) (map (\<lambda>(k, v). (k, f v)) xs)
     = map (\<lambda>(k, v). (k, f v)) (sort_key (\<lambda>p. g (fst p)) xs)"
  by (induction xs) (auto simp: insort_key_map_values)

lemma Object_entries_map_values:
  "Object_entries (map (\<lambda>(k, v). (k, f v)) obj) = map (\<lambda>(k, v). (k, f v)) (Object_entries obj)"
proof -
  have "filter (\<lambda>p. P (fst p)) (map (\<lambda>(k, v). (k, f v)) obj)
          = map (\<lambda>(k, v). (k, f v)) (filter (\<lambda>p. P (fst p)) obj)" for P
    by (induction obj) auto
  then show ?thesis
    by (simp add: Object_entries_def sort_key_map_values)
qed

lemma numeric_entries_Num: "numeric_entries (map (\<lambda>(k, v). (k, Num v)) es) = Some es"
  by (induction es) auto

lemma tops_plain_names:
  assumes "\<forall>t\<in>set txs. \<not> inherited (category_name t)"
  shows "topCategories (getDashboardSummary goal txs)
           = Some (top_five (sum_list (map amount txs)) (Object_entries (category_groups txs)))"
  by (simp add: getDashboardSummary_def topCategories_of_def categoryTotals_groups [OF assms]
      Object_entries_map_values numeric_entries_Num totalExpenses_of_sum)

lemma length_top_five: "length (top_five te es) = min 5 (length es)"
  by (simp add: top_five_alt min.commute)

lemma sorted_tops:
  "sorted_wrt (\<lambda>a b. top_amount b \<le> top_amount a)
     (sort_key (\<lambda>e. - top_amount e) es)"
  using sorted_sort_key [of "\<lambda>e. - top_amount e" es] by (simp add: sorted_map)

lemma sorted_top_five:
  "sorted_wrt (\<lambda>a b. top_amount b \<le> top_amount a) (top_five te es)"
  unfolding top_five_alt by (rule sorted_wrt_take_local) (rule sorted_tops)

lemma distinct_names_top_five:
  assumes "distinct (map fst es)"
  shows "distinct (map top_category_name (top_five te es))"
proof -
  have "map top_category_name (map (top_entry te) es) = map fst es"
    by simp
  with assms have "distinct (map top_category_name (map (top_entry te) es))"
    by (simp only:)
  then have "distinct (map top_category_name
                (sort_key (\<lambda>e. - top_amount e) (map (top_entry te) es)))"
    by (simp only: distinct_map_sort_key)
  then have "distinct (take 5 (map top_category_name
                (sort_key (\<lambda>e. - top_amount e) (map (top_entry te) es))))"
    by (rule distinct_take)
  then show ?thesis
    by (simp only: top_five_alt take_map)
qed

lemma set_top_five_subset: "set (top_five te es) \<subseteq> top_entry te ` set es"
  unfolding top_five_alt using set_take_subset [of 5] by fastforce

lemma left_out_is_smaller:
  assumes "p \<in> set es" and "fst p \<notin> top_category_name ` set (top_five te es)"
    and "e \<in> set (top_five te es)"
  shows "snd p \<le> top_amount e"
proof -
  let ?all = "sort_key (\<lambda>e. - top_amount e) (map (top_entry te) es)"
  from assms(1) have "top_entry te p \<in> set ?all" by simp
  moreover from assms(2) have "top_entry te p \<notin> set (take 5 ?all)"
    by (metis top_entry_sel(1) image_eqI top_five_alt)
  ultimately have d: "top_entry te p \<in> set (drop 5 ?all)"
    by (metis Un_iff append_take_drop_id set_append)
  have "sorted_wrt (\<lambda>a b. top_amount b \<le> top_amount a) (take 5 ?all @ drop 5 ?all)"
    by (simp add: sorted_tops)
  then have "\<forall>a\<in>set (take 5 ?all). \<forall>b\<in>set (drop 5 ?all). top_amount b \<le> top_amount a"
    by (simp only: sorted_wrt_append) blast
  moreover from assms(3) have "e \<in> set (take 5 ?all)"
    by (simp only: top_five_alt)
  ultimately have "top_amount (top_entry te p) \<le> top_amount e"
    using d by blast
  then show ?thesis by simp
qed

lemma inj_top_entry: "inj (top_entry te)"
  by (rule injI) (auto simp: top_entry_def split_def prod_eq_iff)

lemma distinct_category_groups: "distinct (map fst (category_groups txs))"
  by (simp add: category_groups_def comp_def)

lemma top_five_of_example_sums:
  assumes "distinct (map fst es)"
    and "set es = {(''A'', 30), (''B'', 50), (''C'', 20), (''D'', 10), (''E'', 5), (''F'', 40)}"
  shows "map (\<lambda>e. (top_category_name e, top_amount e)) (top_five te es)
           = [(''B'', 50), (''F'', 40), (''A'', 30), (''C'', 20), (''D'', 10)]"
proof -
  let ?xs = "map (top_entry te) es"
  let ?ys = "map (top_entry te)
               [(''B'', 50), (''F'', 40), (''A'', 30), (''C'', 20), (''D'', 10), (''E'', 5)]"
  from assms(1) have "distinct es" by (simp add: distinct_map)
  then have dx: "distinct ?xs"
    by (simp add: distinct_map inj_on_subset [OF inj_top_entry])
  have dy: "distinct ?ys" by (simp add: top_entry_def)
  have s: "set ?xs = set ?ys" using assms(2) by auto
  have i: "inj_on (\<lambda>e. - top_amount e) (set ?ys)" by (simp add: top_entry_def)
  have o: "sorted (map (\<lambda>e. - top_amount e) ?ys)" by (simp add: top_entry_def)
  have "sort_key (\<lambda>e. - top_amount e) ?xs = ?ys"
    using dx dy s i o by (rule sort_key_unique)
  then show ?thesis by (simp add: top_five_alt top_entry_def)
qed

lemmas dashboard_eval = getDashboardSummary_def topCategories_of_def top_five_def categoryTotals_def
  totals_step_def Object_entries_def top_entry_def sort_amount_desc_def is_array_index_def
  is_digit_def numeric_value_def example_tx_def set_prop_def get_prop_def totalExpenses_of_def
  first_occurrence_def inherited_def object_prototype_names_def

text \<open>
  The aggregation on category names that \<^verbatim>\<open>Object.prototype\<close> does not define:
  \<open>categoryTotals\<close> has one group for each stored \<open>category_name\<close>, holding the sum of the
  amounts of the transactions of that name; \<open>topCategories\<close> lists groups, each once,
  largest amount first, five of them or all when there are fewer; every entry carries the
  name and the sum of its group and the percentage \<open>amount / totalExpenses * 100\<close>, or 0 when
  \<open>totalExpenses\<close> is not positive; no group left out has a larger sum than a group
  listed; and for the category sums A:30, B:50, C:20, D:10, E:5, F:40 the result is B(50),
  F(40), A(30), C(20), D(10).
\<close>

theorem top_categories_for_plain_names:
  assumes "\<forall>t\<in>set txs. \<not> inherited (category_name t)"
  shows "categoryTotals txs = map (\<lambda>(name, total). (name, Num total)) (category_groups txs)
   \<and> (\<exists>tops. topCategories (getDashboardSummary goal txs) = Some tops
       \<and> length tops = min 5 (card (category_name ` set txs))
       \<and> sorted_wrt (\<lambda>a b. top_amount a \<ge> top_amount b) tops
       \<and> distinct (map top_category_name tops)
       \<and> (\<forall>e \<in> set tops.
             top_category_name e \<in> category_name ` set txs
             \<and> top_amount e = group_sum txs (top_category_name e)
             \<and> percentage e = (if 0 < sum_list (map amount txs)
                                then top_amount e / sum_list (map amount txs) * 100 else 0))
       \<and> (\<forall>n \<in> category_name ` set txs.
             n \<notin> top_category_name ` set tops
             \<longrightarrow> (\<forall>e \<in> set tops. group_sum txs n \<le> top_amount e))
       \<and> (set (category_groups txs)
             = {(''A'', 30), (''B'', 50), (''C'', 20), (''D'', 10), (''E'', 5), (''F'', 40)}
           \<longrightarrow> map (\<lambda>e. (top_category_name e, top_amount e)) tops
               = [(''B'', 50), (''F'', 40), (''A'', 30), (''C'', 20), (''D'', 10)]))"
proof -
  let ?te = "sum_list (map amount txs)"
  let ?es = "Object_entries (category_groups txs)"
  let ?tops = "top_five ?te ?es"
  have tops: "topCategories (getDashboardSummary goal txs) = Some ?tops"
    using assms by (rule tops_plain_names)
  have dk: "distinct (map fst ?es)"
    by (rule distinct_keys_Object_entries) (rule distinct_category_groups)
  have len: "length ?tops = min 5 (card (category_name ` set txs))"
  proof -
    have "length (category_groups txs) = card (set (first_seen (map category_name txs)))"
      by (simp only: category_groups_def length_map distinct_card [OF distinct_first_seen])
    then show ?thesis by (simp add: length_top_five)
  qed
  have mem: "top_category_name e \<in> category_name ` set txs
         \<and> top_amount e = group_sum txs (top_category_name e)
         \<and> percentage e = (if 0 < ?te then top_amount e / ?te * 100 else 0)"
    if "e \<in> set ?tops" for e
  proof -
    from that set_top_five_subset obtain p where p: "p \<in> set ?es" "e = top_entry ?te p"
      by blast
    from p(1) have "fst p \<in> category_name ` set txs" "snd p = group_sum txs (fst p)"
      by (auto simp: category_groups_def)
    with p(2) show ?thesis by simp
  qed
  have out: "group_sum txs n \<le> top_amount e"
    if "n \<in> category_name ` set txs" "n \<notin> top_category_name ` set ?tops" "e \<in> set ?tops" for n e
  proof -
    from that(1) have "(n, group_sum txs n) \<in> set ?es"
      by (auto simp: category_groups_def)
    from left_out_is_smaller [OF this _ that(3)] that(2) show ?thesis by simp
  qed
  have ex: "map (\<lambda>e. (top_category_name e, top_amount e)) ?tops
           = [(''B'', 50), (''F'', 40), (''A'', 30), (''C'', 20), (''D'', 10)]"
    if "set (category_groups txs)
         = {(''A'', 30), (''B'', 50), (''C'', 20), (''D'', 10), (''E'', 5), (''F'', 40)}"
    using dk by (rule top_five_of_example_sums) (simp add: that)
  show ?thesis
  proof (intro conjI exI [of _ ?tops] ballI impI)
    show "categoryTotals txs = map (\<lambda>(name, total). (name, Num total)) (category_groups txs)"
      using assms by (rule categoryTotals_groups)
    show "topCategories (getDashboardSummary goal txs) = Some ?tops" by (rule tops)
    show "length ?tops = min 5 (card (category_name ` set txs))" by (rule len)
    show "sorted_wrt (\<lambda>a b. top_amount a \<ge> top_amount b) ?tops" by (rule sorted_top_five)
    show "distinct (map top_category_name ?tops)" using dk by (rule distinct_names_top_five)
  next
    fix e assume "e \<in> set ?tops"
    from mem [OF this]
    show "top_category_name e \<in> category_name ` set txs"
      and "top_amount e = group_sum txs (top_category_name e)"
      and "percentage e = (if 0 < ?te then top_amount e / ?te * 100 else 0)"
      by simp_all
  next
    fix n e
    assume "n \<in> category_name ` set txs" "n \<notin> top_category_name ` set ?tops" "e \<in> set ?tops"
    then show "group_sum txs n \<le> top_amount e" by (rule out)
  next
    assume "set (category_groups txs)
         = {(''A'', 30), (''B'', 50), (''C'', 20), (''D'', 10), (''E'', 5), (''F'', 40)}"
    then show "map (\<lambda>e. (top_category_name e, top_amount e)) ?tops
           = [(''B'', 50), (''F'', 40), (''A'', 30), (''C'', 20), (''D'', 10)]"
      by (rule ex)
  qed
qed

text \<open>
  C1. The claim speaks of every list of transactions; the code loses it on a category
  name that \<^verbatim>\<open>Object.prototype\<close> defines. A transaction recorded under \<^verbatim>\<open>__proto__\<close> counts in
  \<open>totalExpenses\<close> and has no group: \<open>categoryTotals\<close> and \<open>topCategories\<close> do not mention it
  and the percentages listed no longer add up to 100. Under \<^verbatim>\<open>constructor\<close> the group holds a
  string where the claim has the sum, and the comparator of the sort yields \<^verbatim>\<open>NaN\<close>.
\<close>

theorem C1_inherited_names_break_groups:
  "categoryTotals [example_tx ''Food'' 5, example_tx ''__proto__'' 10] = [(''Food'', Num 5)]
   \<and> totalExpenses (getDashboardSummary None [example_tx ''Food'' 5, example_tx ''__proto__'' 10])
       = 15
   \<and> topCategories (getDashboardSummary None [example_tx ''Food'' 5, example_tx ''__proto__'' 10])
       = Some [\<lparr>top_category_name = ''Food'', top_amount = 5, percentage = 100 / 3\<rparr>]
   \<and> categoryTotals [example_tx ''Food'' 5, example_tx ''constructor'' 10]
       = [(''Food'', Num 5), (''constructor'', Text)]
   \<and> topCategories (getDashboardSummary None [example_tx ''Food'' 5, example_tx ''constructor'' 10])
       = None"
  by (simp add: dashboard_eval)

subsection \<open>Ties among the top categories\<close>








subsection \<open>The category resolver\<close>

lemma found_maybeSingle:
  "found (maybeSingle rows) = Some r \<Longrightarrow> \<exists>c. rows = [c] \<and> r = (cat_id c, cat_name c)"
  by (auto simp: found_def maybeSingle_def split: list.splits)

lemma found_find_by_id:
  assumes "found (find_by_id userId cid s) = Some r"
  shows "\<exists>c\<in>set (categories_tbl s). cat_id c = fst r \<and> cat_name c = snd r \<and> visible_to userId c"
proof -
  from found_maybeSingle [OF assms [unfolded find_by_id_def]]
  obtain c where c:
    "filter (\<lambda>c. same_uuid (cat_id c) cid \<and> visible_to userId c) (categories_tbl s) = [c]"
    "r = (cat_id c, cat_name c)" by blast
  from c(1) have
    "c \<in> set (filter (\<lambda>c. same_uuid (cat_id c) cid \<and> visible_to userId c) (categories_tbl s))"
    by simp
  with c(2) show ?thesis by auto
qed

lemma found_find_by_name:
  assumes "found (find_by_name userId name s) = Some r"
  shows "\<exists>c\<in>set (categories_tbl s). cat_id c = fst r \<and> cat_name c = snd r \<and> visible_to userId c"
proof -
  from found_maybeSingle [OF assms [unfolded find_by_name_def]]
  obtain c where c: "limit1 (filter (\<lambda>c. cat_name c = name \<and> visible_to userId c) (categories_tbl s)) = [c]"
    "r = (cat_id c, cat_name c)" by blast
  from c(1) have "c \<in> set (take 1 (filter (\<lambda>c. cat_name c = name \<and> visible_to userId c) (categories_tbl s)))"
    by (simp add: limit1_def)
  then have "c \<in> set (filter (\<lambda>c. cat_name c = name \<and> visible_to userId c) (categories_tbl s))"
    by (rule in_set_takeD)
  with c(2) show ?thesis by auto
qed

lemma same_uuid_iff: "same_uuid a b \<longleftrightarrow> uuid_digits a = uuid_digits b"
  by (simp add: same_uuid_def)

lemma insert_category_cases:
  "insert_category row s = ((True, None), s)
   \<or> insert_category row s = ((False, Some row), s\<lparr>categories_tbl := categories_tbl s @ [row]\<rparr>)
      \<and> uuid_digits (cat_id row) \<notin> (\<lambda>c. uuid_digits (cat_id c)) ` set (categories_tbl s)"
  by (auto simp: insert_category_def single_def list_ex_iff same_uuid_iff)

lemma resolve_unfold:
  "resolveCategoryId env userId categoryId categoryName createIfMissing s =
     (case (if isUuid (Some (or_empty categoryId))
            then found (find_by_id userId (or_empty categoryId) s) else None) of
        Some r \<Rightarrow> (Some r, s)
      | None \<Rightarrow>
          (case (if truthy categoryName \<and> length (trim (or_empty categoryName)) > 0
                 then found (find_by_name userId (or_empty categoryName) s) else None) of
             Some r \<Rightarrow> (Some r, s)
           | None \<Rightarrow>
               (if createIfMissing \<and> truthy (derive_name categoryId categoryName)
                then (found (fst (insert_category
                             \<lparr>cat_id = newId env,
                              cat_name = or_empty (derive_name categoryId categoryName),
                              color = ''#6B7280'', icon = ''more-horizontal'',
                              is_default = False, cat_user_id = Some userId,
                              cat_created_at = dbNow env\<rparr> s)),
                      snd (insert_category
                             \<lparr>cat_id = newId env,
                              cat_name = or_empty (derive_name categoryId categoryName),
                              color = ''#6B7280'', icon = ''more-horizontal'',
                              is_default = False, cat_user_id = Some userId,
                              cat_created_at = dbNow env\<rparr> s))
                else (None, s))))"
  by (simp add: resolveCategoryId_def split_def cong: option.case_cong if_cong)

lemma resolve_cases:
  assumes "resolveCategoryId env userId categoryId categoryName createIfMissing s = (Some r, s')"
  shows "(s' = s \<and> (\<exists>c\<in>set (categories_tbl s).
              cat_id c = fst r \<and> cat_name c = snd r \<and> visible_to userId c))
       \<or> (\<exists>row. s' = s\<lparr>categories_tbl := categories_tbl s @ [row]\<rparr>
              \<and> uuid_digits (cat_id row) \<notin> (\<lambda>c. uuid_digits (cat_id c)) ` set (categories_tbl s)
              \<and> cat_id row = fst r \<and> cat_name row = snd r
              \<and> cat_user_id row = Some userId \<and> \<not> is_default row)"
proof -
  let ?row = "\<lparr>cat_id = newId env, cat_name = or_empty (derive_name categoryId categoryName),
               color = ''#6B7280'', icon = ''more-horizontal'', is_default = False,
               cat_user_id = Some userId, cat_created_at = dbNow env\<rparr>"
  let ?one = "if isUuid (Some (or_empty categoryId))
              then found (find_by_id userId (or_empty categoryId) s) else None"
  let ?two = "if truthy categoryName \<and> length (trim (or_empty categoryName)) > 0
              then found (find_by_name userId (or_empty categoryName) s) else None"
  show ?thesis
  proof (cases ?one)
    case (Some r1)
    with assms have "r1 = r" "s' = s" by (simp_all add: resolve_unfold)
    moreover from Some have "found (find_by_id userId (or_empty categoryId) s) = Some r1"
      by (simp split: if_splits)
    ultimately show ?thesis using found_find_by_id by blast
  next
    case None
    note one = this
    show ?thesis
    proof (cases ?two)
      case (Some r2)
      with one assms have "r2 = r" "s' = s" by (simp_all add: resolve_unfold)
      moreover from Some have "found (find_by_name userId (or_empty categoryName) s) = Some r2"
        by (simp split: if_splits)
      ultimately show ?thesis using found_find_by_name by blast
    next
      case None
      with one assms have ins: "found (fst (insert_category ?row s)) = Some r"
        "s' = snd (insert_category ?row s)"
        by (simp_all add: resolve_unfold split: if_splits)
      from insert_category_cases [of ?row s] ins(1)
      have ok: "insert_category ?row s
                  = ((False, Some ?row), s\<lparr>categories_tbl := categories_tbl s @ [?row]\<rparr>)"
        and fresh: "uuid_digits (cat_id ?row)
                      \<notin> (\<lambda>c. uuid_digits (cat_id c)) ` set (categories_tbl s)"
        by (auto simp: found_def)
      from ok ins have "r = (cat_id ?row, cat_name ?row)"
        "s' = s\<lparr>categories_tbl := categories_tbl s @ [?row]\<rparr>"
        by (simp_all add: found_def)
      with fresh show ?thesis by (intro disjI2 exI [of _ ?row]) simp
    qed
  qed
qed

lemma resolve_None_unchanged:
  assumes "resolveCategoryId env userId categoryId categoryName createIfMissing s = (None, s')"
  shows "s' = s"
proof -
  let ?row = "\<lparr>cat_id = newId env, cat_name = or_empty (derive_name categoryId categoryName),
               color = ''#6B7280'', icon = ''more-horizontal'', is_default = False,
               cat_user_id = Some userId, cat_created_at = dbNow env\<rparr>"
  have "found (fst (insert_category ?row s)) = None \<Longrightarrow> snd (insert_category ?row s) = s"
    using insert_category_cases [of ?row s] by (auto simp: found_def)
  with assms show ?thesis
    by (auto simp: resolve_unfold split: option.splits if_splits)
qed

lemmas resolve_eval = resolveCategoryId_def find_by_id_def find_by_name_def found_def
  maybeSingle_def single_def limit1_def visible_to_def insert_category_def derive_name_def
  truthy_def or_empty_def trim_def is_space_def isUuid_def is_hex_def title_case_def
  hyphens_to_spaces_def is_word_char_def toUpperCase_def example_env_def example_category_def
  empty_store_def alice_def bob_def uuid1_def uuid2_def uuid3_def uuid1_upper_def same_uuid_def
  uuid_digits_def hex_lower_def

text \<open>
  C3. Whatever the owner and the store, a category that \<open>resolveCategoryId\<close> returns is a
  row of the resulting store that is a system default or belongs to the calling owner;
  where identifiers are unique it is the only row of that identifier. A reference that is
  a well-formed identifier of no category visible to the owner is not returned: the call
  behaves as the call without a reference, by name and then by creation, and when the
  reference names another account's category the identifier returned is a different one.
\<close>

theorem C3_ownership_boundary:
  "(resolveCategoryId env userId categoryId categoryName createIfMissing s = (Some r, s')
      \<longrightarrow> (\<exists>c\<in>set (categories_tbl s').
             cat_id c = fst r \<and> cat_name c = snd r \<and> (is_default c \<or> cat_user_id c = Some userId))
          \<and> (distinct (map (\<lambda>c. uuid_digits (cat_id c)) (categories_tbl s))
              \<longrightarrow> (\<forall>c\<in>set (categories_tbl s').
                     same_uuid (cat_id c) (fst r)
                     \<longrightarrow> is_default c \<or> cat_user_id c = Some userId)))
   \<and> (isUuid (Some cid)
       \<and> (\<forall>c\<in>set (categories_tbl s).
             same_uuid (cat_id c) cid \<longrightarrow> \<not> (is_default c \<or> cat_user_id c = Some userId))
      \<longrightarrow> resolveCategoryId env userId (Some cid) categoryName createIfMissing s
            = resolveCategoryId env userId None categoryName createIfMissing s
          \<and> ((\<exists>c\<in>set (categories_tbl s). same_uuid (cat_id c) cid)
              \<and> resolveCategoryId env userId (Some cid) categoryName createIfMissing s = (Some r, s')
             \<longrightarrow> \<not> same_uuid (fst r) cid))"
proof -
  have vis: "\<exists>c\<in>set (categories_tbl s').
             cat_id c = fst r \<and> cat_name c = snd r \<and> (is_default c \<or> cat_user_id c = Some userId)"
    if "resolveCategoryId env userId categoryId categoryName createIfMissing s = (Some r, s')"
    for categoryId
    using resolve_cases [OF that] by (auto simp: visible_to_def)
  have uniq: "\<forall>c\<in>set (categories_tbl s').
                same_uuid (cat_id c) (fst r) \<longrightarrow> is_default c \<or> cat_user_id c = Some userId"
    if res: "resolveCategoryId env userId categoryId categoryName createIfMissing s = (Some r, s')"
      and d: "distinct (map (\<lambda>c. uuid_digits (cat_id c)) (categories_tbl s))"
  proof -
    from resolve_cases [OF res]
    have "distinct (map (\<lambda>c. uuid_digits (cat_id c)) (categories_tbl s'))"
      using d by auto
    then have "inj_on (\<lambda>c. uuid_digits (cat_id c)) (set (categories_tbl s'))"
      by (simp add: distinct_map)
    moreover from vis [OF res] obtain c0 where c0: "c0 \<in> set (categories_tbl s')"
      "cat_id c0 = fst r" "is_default c0 \<or> cat_user_id c0 = Some userId" by blast
    ultimately have "c = c0" if "c \<in> set (categories_tbl s')" "same_uuid (cat_id c) (fst r)" for c
      using that by (simp add: inj_on_def same_uuid_iff)
    with c0(3) show ?thesis by blast
  qed
  have fall: "resolveCategoryId env userId (Some cid) categoryName createIfMissing s
            = resolveCategoryId env userId None categoryName createIfMissing s"
    if u: "isUuid (Some cid)"
      and inv: "\<forall>c\<in>set (categories_tbl s).
             same_uuid (cat_id c) cid \<longrightarrow> \<not> (is_default c \<or> cat_user_id c = Some userId)"
  proof -
    from inv have
      "filter (\<lambda>c. same_uuid (cat_id c) cid \<and> visible_to userId c) (categories_tbl s) = []"
      by (auto simp: filter_empty_conv visible_to_def)
    then have "found (find_by_id userId cid s) = None"
      by (simp add: find_by_id_def maybeSingle_def found_def)
    moreover from u have "derive_name (Some cid) categoryName = derive_name None categoryName"
      by (simp add: derive_name_def truthy_def)
    moreover have "\<not> isUuid (Some (or_empty None))"
      by (simp add: isUuid_def or_empty_def)
    moreover have "or_empty (Some cid) = cid"
      by (simp add: or_empty_def)
    ultimately show ?thesis using u
      by (simp add: resolve_unfold cong: option.case_cong if_cong)
  qed
  have other: "\<not> same_uuid (fst r) cid"
    if inv: "\<forall>c\<in>set (categories_tbl s).
             same_uuid (cat_id c) cid \<longrightarrow> \<not> (is_default c \<or> cat_user_id c = Some userId)"
      and ex: "\<exists>c\<in>set (categories_tbl s). same_uuid (cat_id c) cid"
      and res: "resolveCategoryId env userId (Some cid) categoryName createIfMissing s = (Some r, s')"
    using resolve_cases [OF res] inv ex by (auto simp: visible_to_def same_uuid_iff image_iff)
  from vis uniq fall other show ?thesis by blast
qed

theorem C3_ownership_boundary_witness:
  "isUuid (Some uuid1_upper)
   \<and> map (\<lambda>c. (cat_id c, cat_user_id c, is_default c)) (categories_tbl bobs_store)
       = [(uuid1, Some bob, False)]
   \<and> same_uuid uuid1 uuid1_upper
   \<and> resolveCategoryId (example_env uuid2) alice (Some uuid1_upper) (Some ''Pets'') True bobs_store
       = (Some (uuid2, ''Pets''),
          bobs_store\<lparr>categories_tbl := categories_tbl bobs_store @
            [\<lparr>cat_id = uuid2, cat_name = ''Pets'', color = ''#6B7280'', icon = ''more-horizontal'',
              is_default = False, cat_user_id = Some alice,
              cat_created_at = dbNow (example_env uuid2)\<rparr>]\<rparr>)
   \<and> resolveCategoryId (example_env uuid2) alice (Some uuid1_upper) (Some ''Pets'') True bobs_store
       = resolveCategoryId (example_env uuid2) alice None (Some ''Pets'') True bobs_store
   \<and> \<not> same_uuid uuid2 uuid1_upper"
proof -
  have u: "isUuid (Some uuid1_upper)" by (simp add: resolve_eval)
  have inv: "\<forall>c\<in>set (categories_tbl bobs_store).
             same_uuid (cat_id c) uuid1_upper
             \<longrightarrow> \<not> (is_default c \<or> cat_user_id c = Some alice)"
    by (simp add: bobs_store_def resolve_eval)
  have ex: "\<exists>c\<in>set (categories_tbl bobs_store). same_uuid (cat_id c) uuid1_upper"
    by (simp add: bobs_store_def resolve_eval)
  have res: "resolveCategoryId (example_env uuid2) alice (Some uuid1_upper) (Some ''Pets'') True
         bobs_store
       = (Some (uuid2, ''Pets''),
          bobs_store\<lparr>categories_tbl := categories_tbl bobs_store @
            [\<lparr>cat_id = uuid2, cat_name = ''Pets'', color = ''#6B7280'', icon = ''more-horizontal'',
              is_default = False, cat_user_id = Some alice,
              cat_created_at = dbNow (example_env uuid2)\<rparr>]\<rparr>)"
    by (simp add: bobs_store_def resolve_eval)
  from C3_ownership_boundary [where env = "example_env uuid2" and userId = alice
      and categoryId = "Some uuid1_upper" and cid = uuid1_upper and categoryName = "Some ''Pets''"
      and createIfMissing = True and s = bobs_store and r = "(uuid2, ''Pets'')"
      and s' = "bobs_store\<lparr>categories_tbl := categories_tbl bobs_store @
            [\<lparr>cat_id = uuid2, cat_name = ''Pets'', color = ''#6B7280'', icon = ''more-horizontal'',
              is_default = False, cat_user_id = Some alice,
              cat_created_at = dbNow (example_env uuid2)\<rparr>]\<rparr>"] u inv ex res
  have "resolveCategoryId (example_env uuid2) alice (Some uuid1_upper) (Some ''Pets'') True bobs_store
       = resolveCategoryId (example_env uuid2) alice None (Some ''Pets'') True bobs_store"
    and "\<not> same_uuid uuid2 uuid1_upper"
    by simp_all
  moreover have "map (\<lambda>c. (cat_id c, cat_user_id c, is_default c)) (categories_tbl bobs_store)
       = [(uuid1, Some bob, False)]"
    by (simp add: bobs_store_def example_category_def)
  moreover have "same_uuid uuid1 uuid1_upper" by (simp add: resolve_eval)
  ultimately show ?thesis using u res by simp
qed

lemma title_food_groceries:
  "title_case (hyphens_to_spaces ''food-groceries'') = ''Food Groceries''"
  by (simp add: title_case_def hyphens_to_spaces_def is_word_char_def toUpperCase_def)

lemma derive_food_groceries:
  "derive_name (Some ''food-groceries'') None = Some ''Food Groceries''"
  by (simp add: derive_name_def truthy_def or_empty_def isUuid_def title_food_groceries)

text \<open>
  C4, as amended. For an owner who has no category named \<^verbatim>\<open>Food Groceries\<close> yet, and an
  identifier drawn by the store that is not in use, resolving the reference
  \<^verbatim>\<open>food-groceries\<close> without a name and with \<open>createIfMissing\<close> adds one category, owned by
  that owner, not a default, named \<^verbatim>\<open>Food Groceries\<close>, and returns its identifier and name.
\<close>

theorem C4_slug_creates_category:
  assumes "\<not> list_ex (\<lambda>c. same_uuid (cat_id c) (newId env)) (categories_tbl s)"
    and "\<not> list_ex (\<lambda>c. cat_name c = ''Food Groceries'' \<and> cat_user_id c = Some owner)
             (categories_tbl s)"
  shows "resolveCategoryId env owner (Some ''food-groceries'') None True s
           = (Some (newId env, ''Food Groceries''),
              s\<lparr>categories_tbl := categories_tbl s @
                  [\<lparr>cat_id = newId env, cat_name = ''Food Groceries'', color = ''#6B7280'',
                    icon = ''more-horizontal'', is_default = False, cat_user_id = Some owner,
                    cat_created_at = dbNow env\<rparr>]\<rparr>)"
proof -
  have "\<not> isUuid (Some (or_empty (Some ''food-groceries'')))"
    by (simp add: isUuid_def or_empty_def)
  moreover have "\<not> truthy None" by (simp add: truthy_def)
  moreover have "truthy (Some ''Food Groceries'')" by (simp add: truthy_def)
  moreover from assms have "insert_category
      \<lparr>cat_id = newId env, cat_name = ''Food Groceries'', color = ''#6B7280'',
        icon = ''more-horizontal'', is_default = False, cat_user_id = Some owner,
        cat_created_at = dbNow env\<rparr> s
     = ((False, Some \<lparr>cat_id = newId env, cat_name = ''Food Groceries'', color = ''#6B7280'',
        icon = ''more-horizontal'', is_default = False, cat_user_id = Some owner,
        cat_created_at = dbNow env\<rparr>),
        s\<lparr>categories_tbl := categories_tbl s @
                  [\<lparr>cat_id = newId env, cat_name = ''Food Groceries'', color = ''#6B7280'',
                    icon = ''more-horizontal'', is_default = False, cat_user_id = Some owner,
                    cat_created_at = dbNow env\<rparr>]\<rparr>)"
    by (simp add: insert_category_def single_def)
  ultimately show ?thesis
    by (simp add: resolve_unfold derive_food_groceries found_def or_empty_def)
qed

theorem C4_slug_creates_category_witness:
  "resolveCategoryId (example_env uuid2) alice (Some ''food-groceries'') None True bobs_store
     = (Some (uuid2, ''Food Groceries''),
        bobs_store\<lparr>categories_tbl := categories_tbl bobs_store @
           [\<lparr>cat_id = uuid2, cat_name = ''Food Groceries'', color = ''#6B7280'',
             icon = ''more-horizontal'', is_default = False, cat_user_id = Some alice,
             cat_created_at = dbNow (example_env uuid2)\<rparr>]\<rparr>)"
proof -
  have "\<not> list_ex (\<lambda>c. same_uuid (cat_id c) (newId (example_env uuid2)))
          (categories_tbl bobs_store)"
    and "\<not> list_ex (\<lambda>c. cat_name c = ''Food Groceries'' \<and> cat_user_id c = Some alice)
             (categories_tbl bobs_store)"
    by (simp_all add: bobs_store_def resolve_eval)
  from C4_slug_creates_category [OF this] show ?thesis
    by (simp add: example_env_def)
qed

text \<open>
  C4 as stated fails: an owner whose only category is named \<^verbatim>\<open>Food Groceries\<close> has no
  category matching \<^verbatim>\<open>food-groceries\<close> by identifier or name, the insert of the derived name
  breaks \<^verbatim>\<open>UNIQUE(name, user_id)\<close>, and the resolver returns not-found and creates nothing.
\<close>

theorem C4_slug_creates_category_counterexample:
  "list_all (\<lambda>c. cat_id c \<noteq> ''food-groceries'' \<and> cat_name c \<noteq> ''food-groceries'')
     (categories_tbl alices_store)
   \<and> resolveCategoryId (example_env uuid2) alice (Some ''food-groceries'') None True alices_store
       = (None, alices_store)"
  by (simp add: alices_store_def resolve_eval)

text \<open>
  C5. The code at three inputs: a name of three spaces and no reference, and the reference
  \<^verbatim>\<open>-\<close> without a name, each create a category whose name is only whitespace, where the
  claim asks for not-found; the empty name gives not-found. The test \<^verbatim>\<open>if (derivedName)\<close>
  rejects the empty string only, unlike the tests on \<^verbatim>\<open>trim().length\<close> before it.
\<close>

theorem C5_whitespace_name_is_created:
  "resolveCategoryId (example_env uuid2) alice None (Some ''   '') True empty_store
     = (Some (uuid2, ''   ''),
        \<lparr>categories_tbl =
           [\<lparr>cat_id = uuid2, cat_name = ''   '', color = ''#6B7280'', icon = ''more-horizontal'',
             is_default = False, cat_user_id = Some alice,
             cat_created_at = dbNow (example_env uuid2)\<rparr>],
         monthly_goals_tbl = [], transactions_tbl = []\<rparr>)
   \<and> resolveCategoryId (example_env uuid2) alice (Some ''-'') None True empty_store
     = (Some (uuid2, '' ''),
        \<lparr>categories_tbl =
           [\<lparr>cat_id = uuid2, cat_name = '' '', color = ''#6B7280'', icon = ''more-horizontal'',
             is_default = False, cat_user_id = Some alice,
             cat_created_at = dbNow (example_env uuid2)\<rparr>],
         monthly_goals_tbl = [], transactions_tbl = []\<rparr>)
   \<and> resolveCategoryId (example_env uuid2) alice None (Some '''') True empty_store
     = (None, empty_store)"
  by (simp add: resolve_eval)

subsection \<open>Rejected updates\<close>

text \<open>
  C6. An update that carries a category reference which the resolver cannot resolve is
  rejected with an error and leaves the whole store, and so every field of the target
  transaction, as it was; when the transaction exists and the date (if any) is a date, the
  error is the 400 \<^verbatim>\<open>Unknown category\<close>.
\<close>

theorem C6_update_rejected_unchanged:
  assumes "truthy (upd_category_id updates) \<or> truthy (upd_category_name updates)"
    and "fst (resolveCategoryId env userId (upd_category_id updates) (upd_category_name updates)
               True s) = None"
  shows "(\<exists>e. updateTransaction isoMonth env userId transactionId updates s = (Inl e, s))
       \<and> (single (filter (\<lambda>t. same_uuid (tx_id t) transactionId \<and> tx_user_id t = userId) (transactions_tbl s))
            = (False, Some existing)
          \<and> (truthy (upd_date updates) \<longrightarrow> isoMonth (or_empty (upd_date updates)) \<noteq> None)
          \<longrightarrow> updateTransaction isoMonth env userId transactionId updates s
               = (Inl (createError
                    ''Unknown category. Provide a valid category_id or category_name.'' 400), s))"
proof -
  obtain s' where r: "resolveCategoryId env userId (upd_category_id updates)
      (upd_category_name updates) True s = (None, s')"
    using assms(2) by (cases "resolveCategoryId env userId (upd_category_id updates)
      (upd_category_name updates) True s") simp
  then have "s' = s" by (rule resolve_None_unchanged)
  with r have r: "resolveCategoryId env userId (upd_category_id updates)
      (upd_category_name updates) True s = (None, s)" by simp
  with assms(1) show ?thesis
    by (auto simp: updateTransaction_def split: prod.splits option.splits bool.splits)
qed

theorem C6_update_rejected_unchanged_witness:
  "truthy (upd_category_id (category_only uuid3))
   \<and> resolveCategoryId (example_env uuid3) bob (upd_category_id (category_only uuid3))
         (upd_category_name (category_only uuid3)) True pets_store = (None, pets_store)
   \<and> updateTransaction (\<lambda>d. Some (take 7 d)) (example_env uuid3) bob uuid2 (category_only uuid3)
         pets_store
       = (Inl (createError
            ''Unknown category. Provide a valid category_id or category_name.'' 400), pets_store)"
proof -
  have t: "truthy (upd_category_id (category_only uuid3))"
    by (simp add: category_only_def resolve_eval)
  have r: "resolveCategoryId (example_env uuid3) bob (upd_category_id (category_only uuid3))
         (upd_category_name (category_only uuid3)) True pets_store = (None, pets_store)"
    by (simp add: category_only_def pets_store_def resolve_eval)
  have e: "single (filter (\<lambda>t. same_uuid (tx_id t) uuid2 \<and> tx_user_id t = bob) (transactions_tbl pets_store))
            = (False, Some (example_transaction uuid2 bob uuid1))"
    by (simp add: pets_store_def single_def example_transaction_def resolve_eval)
  have d: "\<not> truthy (upd_date (category_only uuid3))"
    by (simp add: category_only_def truthy_def)
  from C6_update_rejected_unchanged [where updates = "category_only uuid3"
      and env = "example_env uuid3" and userId = bob and s = pets_store
      and transactionId = uuid2 and existing = "example_transaction uuid2 bob uuid1"
      and isoMonth = "\<lambda>d. Some (take 7 d)"] t r e d
  have "updateTransaction (\<lambda>d. Some (take 7 d)) (example_env uuid3) bob uuid2 (category_only uuid3)
         pets_store
       = (Inl (createError
            ''Unknown category. Provide a valid category_id or category_name.'' 400), pets_store)"
    by simp
  with t r show ?thesis by simp
qed

subsection \<open>Goal upsert\<close>



lemma replace_goal_keeps [simp]:
  "goal_user_id (replace_goal env goalData g) = goal_user_id g"
  "goal_month (replace_goal env goalData g) = goal_month g"
  "goal_id (replace_goal env goalData g) = goal_id g"
  "goal_created_at (replace_goal env goalData g) = goal_created_at g"
  "income (replace_goal env goalData g) = req_income goalData"
  "expenses (replace_goal env goalData g) = req_expenses goalData"
  by (simp_all add: replace_goal_def)








subsection \<open>Category deletion\<close>



end
